theory Spec2Isabelle
  imports Complex_Main "HOL-Library.Word"
begin

unbundle bit_operations_syntax

section \<open>Spectra\<close>

text \<open>
  Modelled from the spec: the type \<open>Spectrum\<close> (spectrum/spectrum.h is missing), a
  scalar/spectral value. It is an RGB triple of floats with component-wise arithmetic; a
  float converts to the spectrum that holds it in every channel. Floats are modelled as
  reals: rounding, infinities and NaN are outside the
  model, and a division by zero yields HOL's \<open>0\<close> where the program would produce an
  infinity or a NaN.
\<close>

datatype Spectrum = Spectrum (m_r: real) (m_g: real) (m_b: real)

text \<open>The converting constructor \<open>Spectrum(float)\<close>.\<close>

definition gray :: "real \<Rightarrow> Spectrum" where
  "gray c = Spectrum c c c"

instantiation Spectrum :: "{comm_ring_1, inverse}"
begin

definition zero_Spectrum :: Spectrum where
  "zero_Spectrum = Spectrum 0 0 0"

definition one_Spectrum :: Spectrum where
  "one_Spectrum = Spectrum 1 1 1"

definition plus_Spectrum :: "Spectrum \<Rightarrow> Spectrum \<Rightarrow> Spectrum" where
  "plus_Spectrum a b = Spectrum (m_r a + m_r b) (m_g a + m_g b) (m_b a + m_b b)"

definition minus_Spectrum :: "Spectrum \<Rightarrow> Spectrum \<Rightarrow> Spectrum" where
  "minus_Spectrum a b = Spectrum (m_r a - m_r b) (m_g a - m_g b) (m_b a - m_b b)"

definition uminus_Spectrum :: "Spectrum \<Rightarrow> Spectrum" where
  "uminus_Spectrum a = Spectrum (- m_r a) (- m_g a) (- m_b a)"

definition times_Spectrum :: "Spectrum \<Rightarrow> Spectrum \<Rightarrow> Spectrum" where
  "times_Spectrum a b = Spectrum (m_r a * m_r b) (m_g a * m_g b) (m_b a * m_b b)"

definition divide_Spectrum :: "Spectrum \<Rightarrow> Spectrum \<Rightarrow> Spectrum" where
  "divide_Spectrum a b = Spectrum (m_r a / m_r b) (m_g a / m_g b) (m_b a / m_b b)"

definition inverse_Spectrum :: "Spectrum \<Rightarrow> Spectrum" where
  "inverse_Spectrum a = Spectrum (inverse (m_r a)) (inverse (m_g a)) (inverse (m_b a))"

instance
proof
  fix a b c :: Spectrum
  show "a + b + c = a + (b + c)"
    by (simp add: plus_Spectrum_def)
  show "a + b = b + a"
    by (simp add: plus_Spectrum_def)
  show "0 + a = a"
    by (simp add: plus_Spectrum_def zero_Spectrum_def)
  show "- a + a = 0"
    by (simp add: plus_Spectrum_def uminus_Spectrum_def zero_Spectrum_def)
  show "a - b = a + - b"
    by (simp add: plus_Spectrum_def minus_Spectrum_def uminus_Spectrum_def)
  show "a * b * c = a * (b * c)"
    by (simp add: times_Spectrum_def)
  show "a * b = b * a"
    by (simp add: times_Spectrum_def)
  show "1 * a = a"
    by (simp add: times_Spectrum_def one_Spectrum_def)
  show "(a + b) * c = a * c + b * c"
    by (simp add: times_Spectrum_def plus_Spectrum_def distrib_right)
  show "(0::Spectrum) \<noteq> 1"
    by (simp add: zero_Spectrum_def one_Spectrum_def)
qed

end

text \<open>
  Modelled from the spec: \<open>Spectrum::IsBlack\<close>, the test for zero radiance or zero
  reflectance: every channel is zero.
\<close>

definition IsBlack :: "Spectrum \<Rightarrow> bool" where
  "IsBlack s = (m_r s = 0 \<and> m_g s = 0 \<and> m_b s = 0)"

section \<open>Fresnel models (bsdf/fresnel.h)\<close>

definition FresnelNo_Evaluate :: "real \<Rightarrow> real \<Rightarrow> Spectrum" where
  "FresnelNo_Evaluate cosi coso = gray 1"

definition FresnelConductor_Evaluate :: "Spectrum \<Rightarrow> Spectrum \<Rightarrow> real \<Rightarrow> real \<Rightarrow> Spectrum" where
  "FresnelConductor_Evaluate eta k cosi coso =
     (let abs_cos = (if cosi > 0 then cosi else - cosi);
          sq_cos = abs_cos * abs_cos;
          t = gray 2 * eta * gray abs_cos;
          tmp_f = eta * eta + k * k;
          tmp = tmp_f * gray sq_cos;
          Rparl2 = (tmp - t + gray 1) / (tmp + t + gray 1);
          Rperp2 = (tmp_f - t + gray sq_cos) / (tmp_f + t + gray sq_cos)
      in (Rparl2 + Rperp2) * gray 0.5)"

definition FresnelDielectric_Evaluate :: "real \<Rightarrow> real \<Rightarrow> real \<Rightarrow> real \<Rightarrow> Spectrum" where
  "FresnelDielectric_Evaluate eta_i eta_t cosi coso =
     (let cos_i = (if cosi > 0 then cosi else - cosi);
          cos_o = (if coso > 0 then coso else - coso);
          t0 = eta_t * cos_i;
          t1 = eta_i * cos_o;
          t2 = eta_i * cos_i;
          t3 = eta_t * cos_o;
          Rparl = (t0 - t1) / (t0 + t1);
          Rparp = (t2 - t3) / (t2 + t3)
      in gray ((Rparl * Rparl + Rparp * Rparp) * 0.5))"

text \<open>The three variants behind the virtual \<open>Fresnel::Evaluate\<close>.\<close>

datatype Fresnel =
    FresnelNo
  | FresnelConductor Spectrum Spectrum
  | FresnelDielectric real real

fun Evaluate :: "Fresnel \<Rightarrow> real \<Rightarrow> real \<Rightarrow> Spectrum" where
  "Evaluate FresnelNo cosi coso = FresnelNo_Evaluate cosi coso"
| "Evaluate (FresnelConductor e kk) cosi coso = FresnelConductor_Evaluate e kk cosi coso"
| "Evaluate (FresnelDielectric ei et) cosi coso = FresnelDielectric_Evaluate ei et cosi coso"

section \<open>Geometry\<close>

text \<open>
  Modelled from the spec: points, vectors, rays and intersections (geometry/ is missing)
  as far as the light and the integrator read them, with the dot product, the length of
  a vector, the reverse of a direction and the difference of two points.
\<close>

datatype Vector = Vector real real real

datatype Point = Point real real real

fun Dot :: "Vector \<Rightarrow> Vector \<Rightarrow> real" where
  "Dot (Vector a b c) (Vector d e f) = a * d + b * e + c * f"

fun Length :: "Vector \<Rightarrow> real" where
  "Length (Vector a b c) = sqrt (a * a + b * b + c * c)"

fun neg :: "Vector \<Rightarrow> Vector" where
  "neg (Vector a b c) = Vector (- a) (- b) (- c)"

fun psub :: "Point \<Rightarrow> Point \<Rightarrow> Vector" where
  "psub (Point a b c) (Point d e f) = Vector (a - d) (b - e) (c - f)"

record Ray =
  m_Ori :: Point
  m_Dir :: Vector
  m_Depth :: int
  m_fMin :: real
  m_fMax :: real

text \<open>
  An intersection: the hit point, the surface normal there and the primitive that was
  hit (an index into the scene).
\<close>

record Intersection =
  intersect :: Point
  normal :: Vector
  primitive :: nat

record LightSample =
  ls_u :: real
  ls_v :: real

text \<open>The visibility tester holds the shadow ray a light's sampling routine sets up.\<close>

record Visibility =
  ray :: Ray

section \<open>Area light (light/area.cpp)\<close>

text \<open>
  The shape of an area light is an external collaborator. \<open>SurfaceArea\<close> is its area;
  \<open>shape_sample_l\<close> stands for \<open>Shape::sample_l(ls, p, wi, n, pdf)\<close>: from the light
  sample and the shading point it yields the sampled point, the direction to the light,
  the normal at the sampled point and the solid-angle density, which it stores through
  \<open>pdf\<close> when that pointer is not null.
\<close>

record Shape =
  SurfaceArea :: real
  shape_sample_l :: "LightSample \<Rightarrow> Point \<Rightarrow> Point \<times> Vector \<times> Vector \<times> real"

record AreaLight =
  shape :: "Shape option"
  intensity :: Spectrum

text \<open>
  Modelled from the spec: the constants \<open>TWO_PI\<close> and \<open>UniformHemispherePdf()\<close>
  (utility/ is missing), the hemisphere solid angle factor \<open>2\<pi>\<close> and the density of
  the uniform distribution over the hemisphere.
\<close>

definition TWO_PI :: real where
  "TWO_PI = 2 * pi"

definition UniformHemispherePdf :: real where
  "UniformHemispherePdf = 1 / TWO_PI"

text \<open>
  The output parameters of the incident-direction \<open>sample_l\<close>. \<open>dirToLight\<close> and
  \<open>visibility\<close> are references; the other four are pointers the caller may leave null:
  \<open>None\<close> is the null pointer, \<open>Some v\<close> a cell that holds \<open>v\<close>.
\<close>

record sample_l_out =
  dirToLight :: Vector
  distance :: "real option"
  pdfW :: "real option"
  emissionPdf :: "real option"
  cosAtLight :: "real option"
  visibility :: Visibility

text \<open>Writing through a pointer: nothing happens at a null pointer.\<close>

definition store :: "real \<Rightarrow> real option \<Rightarrow> real option" where
  "store v cell = (case cell of None \<Rightarrow> None | Some old \<Rightarrow> Some v)"

text \<open>
  \<open>AreaLight::sample_l\<close>, incident variant. A failed \<open>sAssert\<close> (null sample, null
  shape) is the result \<open>None\<close>.
\<close>

definition AreaLight_sample_l ::
  "AreaLight \<Rightarrow> Intersection \<Rightarrow> LightSample option \<Rightarrow> sample_l_out \<Rightarrow> (Spectrum \<times> sample_l_out) option" where
  "AreaLight_sample_l light isect ls out =
     (case ls of
        None \<Rightarrow> None
      | Some s \<Rightarrow>
         (case shape light of
            None \<Rightarrow> None
          | Some sh \<Rightarrow>
             (case shape_sample_l sh s (intersect isect) of
                (ps, wi, n, pdf) \<Rightarrow>
                  (let out1 = out\<lparr>dirToLight := wi, pdfW := store pdf (pdfW out)\<rparr>;
                       dlt = psub ps (intersect isect);
                       len = Length dlt
                   in if pdfW out1 = Some 0 then Some (gray 0, out1)
                      else
                        (let out2 = out1\<lparr>cosAtLight := store (Dot (neg wi) n) (cosAtLight out1)\<rparr>;
                             out3 = out2\<lparr>distance := store len (distance out2)\<rparr>;
                             out4 = out3\<lparr>emissionPdf :=
                                      store (UniformHemispherePdf / SurfaceArea sh) (emissionPdf out3)\<rparr>;
                             delta = 0.01;
                             out5 = out4\<lparr>visibility := (visibility out4)\<lparr>ray :=
                                      \<lparr>m_Ori = intersect isect, m_Dir = wi, m_Depth = 0,
                                       m_fMin = delta, m_fMax = len - delta\<rparr>\<rparr>\<rparr>
                         in Some (intensity light, out5))))))"

text \<open>
  \<open>AreaLight::Power\<close>. \<open>Spectrum::GetIntensity\<close> is declared outside the files at hand;
  it reduces a spectrum to one float, and the model takes it as a parameter. The float
  product converts to the spectrum that is returned.
\<close>

definition Power :: "(Spectrum \<Rightarrow> real) \<Rightarrow> AreaLight \<Rightarrow> Spectrum option" where
  "Power GetIntensity light =
     (case shape light of
        None \<Rightarrow> None
      | Some sh \<Rightarrow> Some (gray (SurfaceArea sh * GetIntensity (intensity light) * TWO_PI)))"

section \<open>Whitted integrator (integrator/whittedrt.cpp)\<close>

text \<open>
  A light as the integrator sees it: whether it is a delta light, and its \<open>sample_l\<close>,
  called with null \<open>distance\<close>, \<open>emissionPdf\<close> and \<open>cosAtLight\<close>; from the
  intersection, the light sample and the visibility tester it yields the radiance, the
  direction to the light, the density and the visibility tester as it leaves it.
\<close>

record Light =
  IsDelta :: bool
  light_sample_l ::
    "Intersection \<Rightarrow> LightSample option \<Rightarrow> Visibility \<Rightarrow> Spectrum \<times> Vector \<times> real \<times> Visibility"

text \<open>
  The scene and the collaborators reached through it: the intersection service
  (\<open>None\<close> is a miss), the environment radiance, the lights, the reflectance
  \<open>ip.primitive->GetMaterial()->GetBsdf(&ip)->f(wo, wi)\<close> of the material at an
  intersection, the visibility test, and the tester \<open>Visibility(scene)\<close> constructs.
\<close>

record Scene =
  GetIntersect :: "Ray \<Rightarrow> Intersection option"
  Le :: "Ray \<Rightarrow> Spectrum"
  GetLights :: "Light list"
  bsdf_f :: "Intersection \<Rightarrow> Vector \<Rightarrow> Vector \<Rightarrow> Spectrum"
  IsVisible :: "Visibility \<Rightarrow> bool"
  new_Visibility :: Visibility

record PixelSample =
  light_sample :: "LightSample list"

record WhittedRT =
  max_recursive_depth :: int
  scene :: Scene

text \<open>\<open>&ps.light_sample[0]\<close>: the first light sample, if there is one.\<close>

definition first_light_sample :: "PixelSample \<Rightarrow> LightSample option" where
  "first_light_sample ps = (case light_sample ps of [] \<Rightarrow> None | s # rest \<Rightarrow> Some s)"

text \<open>
  The loop over the lights, with the accumulated radiance \<open>t\<close> and the visibility
  tester as its state. \<open>SatDot\<close> (the clamped cosine of two directions) is a utility
  outside the files at hand and is taken as a parameter. The default-constructed
  \<open>Spectrum t\<close> the loop starts from is black.
\<close>

fun Li_lights ::
  "(Vector \<Rightarrow> Vector \<Rightarrow> real) \<Rightarrow> Scene \<Rightarrow> Ray \<Rightarrow> PixelSample \<Rightarrow> Intersection \<Rightarrow>
   Light list \<Rightarrow> Spectrum \<times> Visibility \<Rightarrow> Spectrum \<times> Visibility" where
  "Li_lights SatDot sc r ps ip [] (t, vis) = (t, vis)"
| "Li_lights SatDot sc r ps ip (l # rest) (t, vis) =
     (if IsDelta l then
        (case light_sample_l l ip (first_light_sample ps) vis of
           (ld, lightDir, pdf, vis1) \<Rightarrow>
             if IsBlack ld then Li_lights SatDot sc r ps ip rest (t, vis1)
             else
               (let f = bsdf_f sc ip (neg (m_Dir r)) lightDir
                in if IsBlack f then Li_lights SatDot sc r ps ip rest (t, vis1)
                   else if IsVisible sc vis1
                     then Li_lights SatDot sc r ps ip rest
                            (t + ld * f * gray (SatDot lightDir (normal ip)) / gray pdf, vis1)
                     else Li_lights SatDot sc r ps ip rest (t, vis1)))
      else Li_lights SatDot sc r ps ip rest (t, vis))"

definition Li :: "(Vector \<Rightarrow> Vector \<Rightarrow> real) \<Rightarrow> WhittedRT \<Rightarrow> Ray \<Rightarrow> PixelSample \<Rightarrow> Spectrum" where
  "Li SatDot wr r ps =
     (if m_Depth r > max_recursive_depth wr then gray 0
      else
        (case GetIntersect (scene wr) r of
           None \<Rightarrow> Le (scene wr) r
         | Some ip \<Rightarrow>
             fst (Li_lights SatDot (scene wr) r ps ip (GetLights (scene wr))
                    (0, new_Visibility (scene wr)))))"

text \<open>
  The estimator in the specification's words. \<open>samples\<close> samples every light of the
  list it is given, in order, handing the visibility tester from one light to the next;
  a sample is \<open>included\<close> when its radiance and its reflectance are not black and the
  visibility test passes, and then stands for the term \<open>contribution\<close>.
\<close>

record Sampled =
  radiance :: Spectrum
  reflectance :: Spectrum
  cosine :: real
  density :: real
  visible :: bool

fun samples ::
  "(Vector \<Rightarrow> Vector \<Rightarrow> real) \<Rightarrow> Scene \<Rightarrow> Ray \<Rightarrow> PixelSample \<Rightarrow> Intersection \<Rightarrow>
   Light list \<Rightarrow> Visibility \<Rightarrow> Sampled list" where
  "samples SatDot sc r ps ip [] vis = []"
| "samples SatDot sc r ps ip (l # rest) vis =
     (case light_sample_l l ip (first_light_sample ps) vis of
        (ld, lightDir, pdf, vis1) \<Rightarrow>
          \<lparr>radiance = ld, reflectance = bsdf_f sc ip (neg (m_Dir r)) lightDir,
           cosine = SatDot lightDir (normal ip), density = pdf,
           visible = IsVisible sc vis1\<rparr> # samples SatDot sc r ps ip rest vis1)"

definition included :: "Sampled \<Rightarrow> bool" where
  "included s = (\<not> IsBlack (radiance s) \<and> \<not> IsBlack (reflectance s) \<and> visible s)"

definition contribution :: "Sampled \<Rightarrow> Spectrum" where
  "contribution s = radiance s * reflectance s * gray (cosine s) / gray (density s)"

section \<open>Material nodes (material/bxdf_node.cpp)\<close>

text \<open>
  Modelled from the spec: \<open>MaterialPropertyValue\<close> (material_node.h is missing), the
  scalar or colour a property slot resolves to: four floats, of which \<open>ToSpectrum\<close>
  reads the first three as a colour and \<open>.x\<close> is the scalar.
\<close>

datatype MaterialPropertyValue =
  MaterialPropertyValue (pv_x: real) (pv_y: real) (pv_z: real) (pv_w: real)

definition ToSpectrum :: "MaterialPropertyValue \<Rightarrow> Spectrum" where
  "ToSpectrum v = Spectrum (pv_x v) (pv_y v) (pv_z v)"

text \<open>
  Reflectance terms are objects in memory and a \<open>Bxdf*\<close> is an address. The measured
  data nodes own their term as a member (\<open>merl\<close>, \<open>fourierBxdf\<close>): the node holds the
  address of that member.
\<close>

type_synonym addr = nat

text \<open>
  The shading graph. A node is one of the classes of bxdf_node.cpp with its property
  members, or a node of a class outside the files at hand (\<open>OtherNode\<close>, with a tag to
  tell such nodes apart). A property holds its constant value, its string and the node
  connected to it (\<open>None\<close>: not connected). The two arrays of a \<open>LayeredBxdfNode\<close>,
  \<open>bxdfs\<close> and \<open>weights\<close>, have \<open>MAX_BXDF_COUNT\<close> entries each. The flag of
  \<open>MerlNode\<close> and \<open>FourierBxdfNode\<close> is the base class's \<open>m_post_processed\<close>.
\<close>

datatype MaterialNode =
    LayeredBxdfNode "MaterialNodeProperty list" "MaterialNodeProperty list"
  | LambertNode MaterialNodeProperty
  | MerlNode bool MaterialNodeProperty addr
  | FourierBxdfNode bool MaterialNodeProperty addr
  | OrenNayarNode MaterialNodeProperty MaterialNodeProperty
  | MicrofacetReflectionNode MaterialNodeProperty MaterialNodeProperty MaterialNodeProperty
      MaterialNodeProperty MaterialNodeProperty MaterialNodeProperty
  | MicrofacetRefractionNode MaterialNodeProperty MaterialNodeProperty MaterialNodeProperty
      MaterialNodeProperty MaterialNodeProperty MaterialNodeProperty
  | OtherNode nat
and MaterialNodeProperty =
    MaterialNodeProperty (pvalue: MaterialPropertyValue) (str: string) (node: "MaterialNode option")

datatype MicroFacetDistribution = Blinn real | Beckmann real | GGX real

datatype VisTerm =
    VisNeumann | VisKelemen | VisSchlick real | VisSmith real | VisSmithJointApprox real
  | VisCookTorrance | VisImplicit

text \<open>
  A reflectance term: its weight and what it is made of. A measured term (\<open>Merl\<close>,
  \<open>FourierBxdf\<close>) records the files \<open>LoadData\<close> was asked to load into it, in order.
\<close>

datatype BxdfModel =
    Lambert Spectrum
  | OrenNayar Spectrum real
  | Merl "string list"
  | FourierBxdf "string list"
  | MicroFacetReflection Spectrum Fresnel MicroFacetDistribution VisTerm
  | MicroFacetRefraction Spectrum Fresnel MicroFacetDistribution VisTerm real real

record Bxdf =
  m_weight :: Spectrum
  model :: BxdfModel

text \<open>
  The memory that holds the terms: the object at each address, and the next free address
  of the arena \<open>SORT_MALLOC\<close> allocates from.
\<close>

record Memory =
  objects :: "addr \<Rightarrow> Bxdf option"
  top :: addr

text \<open>A Bsdf: the shading point it was built for and its terms, in order.\<close>

record Bsdf =
  shading_point :: Intersection
  m_bxdf :: "addr list"

text \<open>
  What material_node.h declares and the files at hand only use: the two bits of
  \<open>MAT_NODE_TYPE\<close> that are tested, the virtual \<open>getNodeType\<close>, the value a node yields
  at the shading point of a Bsdf, and the base class's \<open>MaterialNode::CheckValidation\<close>.
\<close>

record material_node_h =
  MAT_NODE_CONSTANT :: "32 word"
  MAT_NODE_BXDF :: "32 word"
  getNodeType :: "MaterialNode \<Rightarrow> 32 word"
  GetNodeValue :: "MaterialNode \<Rightarrow> Bsdf \<Rightarrow> MaterialPropertyValue"
  MaterialNode_CheckValidation :: "MaterialNode \<Rightarrow> bool"

text \<open>
  Modelled from the spec: \<open>MaterialNodeProperty::GetPropertyValue\<close> (material_node.cpp
  is missing). Resolving a slot returns the constant if the slot is unconnected,
  otherwise the value of the connected node at the shading point.
\<close>

definition GetPropertyValue ::
  "material_node_h \<Rightarrow> MaterialNodeProperty \<Rightarrow> Bsdf \<Rightarrow> MaterialPropertyValue" where
  "GetPropertyValue h p bsdf =
     (case node p of None \<Rightarrow> pvalue p | Some n \<Rightarrow> GetNodeValue h n bsdf)"

text \<open>
  Modelled from the spec: \<open>Bsdf::AddBxdf\<close> (bsdf/bsdf.h is missing). The term is
  appended to the ordered sequence the Bsdf owns.
\<close>

definition AddBxdf :: "Bsdf \<Rightarrow> addr \<Rightarrow> Bsdf" where
  "AddBxdf bsdf a = bsdf\<lparr>m_bxdf := m_bxdf bsdf @ [a]\<rparr>"

text \<open>
  Modelled from the spec: \<open>SORT_MALLOC(T)(...)\<close> (managers/memmanager.h is missing), the
  scoped allocation service: a new object at the next free address of the arena.
\<close>

definition SORT_MALLOC :: "Bxdf \<Rightarrow> Memory \<Rightarrow> addr \<times> Memory" where
  "SORT_MALLOC obj mem =
     (top mem, mem\<lparr>objects := (objects mem)(top mem \<mapsto> obj), top := top mem + 1\<rparr>)"

text \<open>The assignment \<open>p->m_weight = w\<close> to the object at an address.\<close>

definition set_m_weight :: "addr \<Rightarrow> Spectrum \<Rightarrow> Memory \<Rightarrow> Memory" where
  "set_m_weight a w mem =
     mem\<lparr>objects := (objects mem)(a := map_option (\<lambda>obj. obj\<lparr>m_weight := w\<rparr>) (objects mem a))\<rparr>"

text \<open>
  Modelled from the spec: \<open>clamp\<close> (utility/ is missing) brings the roughness into
  the range between its second and its third argument.
\<close>

definition clamp :: "real \<Rightarrow> real \<Rightarrow> real \<Rightarrow> real" where
  "clamp v lo hi = (if v < lo then lo else if v > hi then hi else v)"

text \<open>The two chains of string comparisons of the microfacet nodes.\<close>

definition select_dist :: "string \<Rightarrow> real \<Rightarrow> MicroFacetDistribution" where
  "select_dist name rn =
     (if name = ''Blinn'' then Blinn rn
      else if name = ''Beckmann'' then Beckmann rn
      else GGX rn)"

definition select_vis :: "string \<Rightarrow> real \<Rightarrow> VisTerm" where
  "select_vis name rn =
     (if name = ''Neumann'' then VisNeumann
      else if name = ''Kelemen'' then VisKelemen
      else if name = ''Schlick'' then VisSchlick rn
      else if name = ''Smith'' then VisSmith rn
      else if name = ''SmithJointApprox'' then VisSmithJointApprox rn
      else if name = ''CookTorrance'' then VisCookTorrance
      else VisImplicit)"

text \<open>
  The three statements every analytic node ends with: allocate the term, assign its
  weight, add it to the Bsdf. The state is the Bsdf under construction and the memory.
\<close>

definition add_new :: "Bxdf \<Rightarrow> Bsdf \<times> Memory \<Rightarrow> Bsdf \<times> Memory" where
  "add_new obj st = (case SORT_MALLOC obj (snd st) of (a, mem) \<Rightarrow> (AddBxdf (fst st) a, mem))"

text \<open>
  Modelled from the spec: \<open>MaterialNodeProperty::UpdateBsdf\<close> (material_node.cpp is
  missing), the function \<open>UpdateBsdf\<close> below. If a sub-node is connected it calls that
  sub-node's \<open>UpdateBSDF\<close> with the weight it is given; an empty slot contributes
  nothing.
\<close>

text \<open>
  \<open>UpdateBSDF\<close> of each node class of bxdf_node.cpp, and \<open>LayeredBxdfNode_slots\<close>, the
  loop of \<open>LayeredBxdfNode::UpdateBSDF\<close> over the slot pairs. The weight a slot passes
  on is resolved before the call, on the Bsdf as it is then. In the analytic nodes the
  construction of the term and the assignment of its weight are one record.
\<close>

fun UpdateBSDF ::
    "material_node_h \<Rightarrow> MaterialNode \<Rightarrow> Spectrum \<Rightarrow> Bsdf \<times> Memory \<Rightarrow> Bsdf \<times> Memory"
  and UpdateBsdf ::
    "material_node_h \<Rightarrow> MaterialNodeProperty \<Rightarrow> Spectrum \<Rightarrow> Bsdf \<times> Memory \<Rightarrow> Bsdf \<times> Memory"
  and LayeredBxdfNode_slots ::
    "material_node_h \<Rightarrow> MaterialNodeProperty list \<Rightarrow> MaterialNodeProperty list \<Rightarrow>
     Bsdf \<times> Memory \<Rightarrow> Bsdf \<times> Memory"
where
  "UpdateBSDF h (LayeredBxdfNode bxdfs weights) weight st =
     LayeredBxdfNode_slots h bxdfs weights st"
| "UpdateBSDF h (LambertNode baseColor) weight st =
     add_new \<lparr>m_weight = weight,
              model = Lambert (ToSpectrum (GetPropertyValue h baseColor (fst st)))\<rparr> st"
| "UpdateBSDF h (MerlNode pp merlfile merl) weight st =
     (AddBxdf (fst st) merl, set_m_weight merl weight (snd st))"
| "UpdateBSDF h (FourierBxdfNode pp fourierBxdfFile fourierBxdf) weight st =
     (AddBxdf (fst st) fourierBxdf, set_m_weight fourierBxdf weight (snd st))"
| "UpdateBSDF h (OrenNayarNode baseColor roughness) weight st =
     add_new \<lparr>m_weight = weight,
              model = OrenNayar (ToSpectrum (GetPropertyValue h baseColor (fst st)))
                        (pv_x (GetPropertyValue h roughness (fst st)))\<rparr> st"
| "UpdateBSDF h (MicrofacetReflectionNode baseColor mf_dist mf_vis roughness eta k) weight st =
     (let rn = clamp (pv_x (GetPropertyValue h roughness (fst st))) 0.001 1;
          dist = select_dist (str mf_dist) rn;
          vis = select_vis (str mf_vis) rn;
          frenel = FresnelConductor (ToSpectrum (GetPropertyValue h eta (fst st)))
                     (ToSpectrum (GetPropertyValue h k (fst st)))
      in add_new \<lparr>m_weight = weight,
                  model = MicroFacetReflection (ToSpectrum (GetPropertyValue h baseColor (fst st)))
                            frenel dist vis\<rparr> st)"
| "UpdateBSDF h (MicrofacetRefractionNode baseColor mf_dist mf_vis roughness in_ior ext_ior) weight st =
     (let rn = clamp (pv_x (GetPropertyValue h roughness (fst st))) 0.05 1;
          dist = select_dist (str mf_dist) rn;
          vis = select_vis (str mf_vis) rn;
          in_eta = pv_x (GetPropertyValue h in_ior (fst st));
          ext_eta = pv_x (GetPropertyValue h ext_ior (fst st));
          frenel = FresnelDielectric in_eta ext_eta
      in add_new \<lparr>m_weight = weight,
                  model = MicroFacetRefraction (ToSpectrum (GetPropertyValue h baseColor (fst st)))
                            frenel dist vis in_eta ext_eta\<rparr> st)"
| "UpdateBsdf h (MaterialNodeProperty v s None) weight st = st"
| "UpdateBsdf h (MaterialNodeProperty v s (Some n)) weight st = UpdateBSDF h n weight st"
| "LayeredBxdfNode_slots h (b # bxdfs) (w # weights) st =
     LayeredBxdfNode_slots h bxdfs weights
       (UpdateBsdf h b (ToSpectrum (GetPropertyValue h w (fst st))) st)"
| "LayeredBxdfNode_slots h [] weights st = st"
| "LayeredBxdfNode_slots h bxdfs [] st = st"

text \<open>The node classes that build their term with \<open>SORT_MALLOC\<close>.\<close>

fun analytic :: "MaterialNode \<Rightarrow> bool" where
  "analytic (LambertNode a) = True"
| "analytic (OrenNayarNode a b) = True"
| "analytic (MicrofacetReflectionNode a b c d e f) = True"
| "analytic (MicrofacetRefractionNode a b c d e f) = True"
| "analytic n = False"

subsection \<open>Validation\<close>

text \<open>
  The two loops of \<open>LayeredBxdfNode::CheckValidation\<close>; \<open>False\<close> is the
  \<open>return false\<close> inside the loop, \<open>True\<close> the loop running to its end.
\<close>

fun check_bxdfs :: "material_node_h \<Rightarrow> MaterialNodeProperty list \<Rightarrow> bool" where
  "check_bxdfs h [] = True"
| "check_bxdfs h (bxdf_prop # rest) =
     (case node bxdf_prop of
        None \<Rightarrow> check_bxdfs h rest
      | Some n \<Rightarrow>
          if getNodeType h n AND MAT_NODE_BXDF h = 0 then False else check_bxdfs h rest)"

fun check_weights :: "material_node_h \<Rightarrow> MaterialNodeProperty list \<Rightarrow> bool" where
  "check_weights h [] = True"
| "check_weights h (weight_prop # rest) =
     (case node weight_prop of
        None \<Rightarrow> check_weights h rest
      | Some n \<Rightarrow>
          if getNodeType h n AND MAT_NODE_CONSTANT h = 0 then False else check_weights h rest)"

text \<open>
  \<open>m_props\<close> as the constructors of the leaf classes fill it. The loop of
  \<open>BxdfNode::CheckValidation\<close> returns at the first offending entry and changes
  nothing, so the order of the entries does not matter.
\<close>

fun m_props :: "MaterialNode \<Rightarrow> (string \<times> MaterialNodeProperty) list" where
  "m_props (LambertNode baseColor) = [(''BaseColor'', baseColor)]"
| "m_props (MerlNode pp merlfile merl) = [(''Filename'', merlfile)]"
| "m_props (FourierBxdfNode pp fourierBxdfFile fourierBxdf) = [(''Filename'', fourierBxdfFile)]"
| "m_props (OrenNayarNode baseColor roughness) =
     [(''BaseColor'', baseColor), (''Roughness'', roughness)]"
| "m_props (MicrofacetReflectionNode baseColor mf_dist mf_vis roughness eta k) =
     [(''BaseColor'', baseColor), (''MicroFacetDistribution'', mf_dist), (''Visibility'', mf_vis),
      (''Roughness'', roughness), (''eta'', eta), (''k'', k)]"
| "m_props (MicrofacetRefractionNode baseColor mf_dist mf_vis roughness in_ior ext_ior) =
     [(''BaseColor'', baseColor), (''MicroFacetDistribution'', mf_dist), (''Visibility'', mf_vis),
      (''Roughness'', roughness), (''in_ior'', in_ior), (''ext_ior'', ext_ior)]"

fun check_props :: "material_node_h \<Rightarrow> (string \<times> MaterialNodeProperty) list \<Rightarrow> bool" where
  "check_props h [] = True"
| "check_props h (prop # rest) =
     (case node (snd prop) of
        None \<Rightarrow> check_props h rest
      | Some n \<Rightarrow>
          if getNodeType h n AND MAT_NODE_BXDF h \<noteq> 0 then False else check_props h rest)"

definition BxdfNode_CheckValidation :: "material_node_h \<Rightarrow> MaterialNode \<Rightarrow> bool" where
  "BxdfNode_CheckValidation h this =
     (if check_props h (m_props this) then MaterialNode_CheckValidation h this else False)"

text \<open>
  The virtual \<open>CheckValidation\<close>: \<open>LayeredBxdfNode\<close> overrides it, the other classes of
  bxdf_node.cpp inherit \<open>BxdfNode\<close>'s.
\<close>

fun CheckValidation :: "material_node_h \<Rightarrow> MaterialNode \<Rightarrow> bool" where
  "CheckValidation h (LayeredBxdfNode bxdfs weights) =
     (if \<not> check_bxdfs h bxdfs then False
      else if \<not> check_weights h weights then False
      else MaterialNode_CheckValidation h (LayeredBxdfNode bxdfs weights))"
| "CheckValidation h (LambertNode a) = BxdfNode_CheckValidation h (LambertNode a)"
| "CheckValidation h (MerlNode pp a m) = BxdfNode_CheckValidation h (MerlNode pp a m)"
| "CheckValidation h (FourierBxdfNode pp a m) = BxdfNode_CheckValidation h (FourierBxdfNode pp a m)"
| "CheckValidation h (OrenNayarNode a b) = BxdfNode_CheckValidation h (OrenNayarNode a b)"
| "CheckValidation h (MicrofacetReflectionNode a b c d e f) =
     BxdfNode_CheckValidation h (MicrofacetReflectionNode a b c d e f)"
| "CheckValidation h (MicrofacetRefractionNode a b c d e f) =
     BxdfNode_CheckValidation h (MicrofacetRefractionNode a b c d e f)"

text \<open>The classes that inherit \<open>BxdfNode::CheckValidation\<close>.\<close>

fun plain_BxdfNode :: "MaterialNode \<Rightarrow> bool" where
  "plain_BxdfNode (LayeredBxdfNode bxdfs weights) = False"
| "plain_BxdfNode (OtherNode i) = False"
| "plain_BxdfNode n = True"

subsection \<open>Loading measured data\<close>

text \<open>
  Modelled from the spec: \<open>Merl::LoadData\<close> and \<open>FourierBxdf::LoadData\<close> (bsdf/merl.h
  and the Fourier term's header are missing) load the table from disk into the node's
  owned storage. The model appends the file to the loads the object has seen.
\<close>

fun load :: "string \<Rightarrow> BxdfModel \<Rightarrow> BxdfModel" where
  "load file (Merl loads) = Merl (loads @ [file])"
| "load file (FourierBxdf loads) = FourierBxdf (loads @ [file])"
| "load file m = m"

definition LoadData :: "addr \<Rightarrow> string \<Rightarrow> Memory \<Rightarrow> Memory" where
  "LoadData a file mem =
     mem\<lparr>objects := (objects mem)(a := map_option (\<lambda>obj. obj\<lparr>model := load file (model obj)\<rparr>)
                                           (objects mem a))\<rparr>"

text \<open>
  \<open>MerlNode::PostProcess\<close> and \<open>FourierBxdfNode::PostProcess\<close>: the node and the memory
  after the call. Neither assigns \<open>m_post_processed\<close>.
\<close>

fun MerlNode_PostProcess :: "MaterialNode \<Rightarrow> Memory \<Rightarrow> MaterialNode \<times> Memory" where
  "MerlNode_PostProcess (MerlNode pp merlfile merl) mem =
     (if pp then (MerlNode pp merlfile merl, mem)
      else if str merlfile \<noteq> [] then (MerlNode pp merlfile merl, LoadData merl (str merlfile) mem)
      else (MerlNode pp merlfile merl, mem))"

fun FourierBxdfNode_PostProcess :: "MaterialNode \<Rightarrow> Memory \<Rightarrow> MaterialNode \<times> Memory" where
  "FourierBxdfNode_PostProcess (FourierBxdfNode pp fourierBxdfFile fourierBxdf) mem =
     (if pp then (FourierBxdfNode pp fourierBxdfFile fourierBxdf, mem)
      else if str fourierBxdfFile \<noteq> []
        then (FourierBxdfNode pp fourierBxdfFile fourierBxdf,
              LoadData fourierBxdf (str fourierBxdfFile) mem)
      else (FourierBxdfNode pp fourierBxdfFile fourierBxdf, mem))"

section \<open>Example inputs\<close>

text \<open>
  A ray that hits the plane \<open>z = 0\<close> from above, an area light whose shape samples
  with density zero, and a scene with one area light and one point light.
\<close>

definition ex_ray :: Ray where
  "ex_ray = \<lparr>m_Ori = Point 0 0 5, m_Dir = Vector 0 0 (- 1), m_Depth = 0, m_fMin = 0, m_fMax = 1000\<rparr>"

definition ex_ip :: Intersection where
  "ex_ip = \<lparr>intersect = Point 0 0 0, normal = Vector 0 0 1, primitive = 0\<rparr>"

definition ex_shape :: Shape where
  "ex_shape = \<lparr>SurfaceArea = 3,
               shape_sample_l = (\<lambda>s p. (Point 0 0 4, Vector 0 0 1, Vector 0 0 (- 1), 0))\<rparr>"

definition ex_area_light :: AreaLight where
  "ex_area_light = \<lparr>shape = Some ex_shape, intensity = Spectrum 1 0 0\<rparr>"

definition ex_white_light :: AreaLight where
  "ex_white_light = \<lparr>shape = Some ex_shape, intensity = Spectrum (1 / 2) (1 / 2) (1 / 2)\<rparr>"

definition ex_out :: sample_l_out where
  "ex_out = \<lparr>dirToLight = Vector 0 0 0, distance = Some 7, pdfW = Some 5, emissionPdf = Some 9,
             cosAtLight = Some 11, visibility = \<lparr>ray = ex_ray\<rparr>\<rparr>"

definition ex_mean :: "Spectrum \<Rightarrow> real" where
  "ex_mean s = (m_r s + m_g s + m_b s) / 3"

definition ex_point :: Light where
  "ex_point = \<lparr>IsDelta = True,
               light_sample_l = (\<lambda>ip ls vis. (gray 2, Vector 0 0 1, 1,
                 vis\<lparr>ray := \<lparr>m_Ori = intersect ip, m_Dir = Vector 0 0 1, m_Depth = 0,
                              m_fMin = 0.01, m_fMax = 3\<rparr>\<rparr>))\<rparr>"

definition ex_area :: Light where
  "ex_area = \<lparr>IsDelta = False,
              light_sample_l = (\<lambda>ip ls vis. (gray 5, Vector 0 0 1, 1, vis))\<rparr>"

definition ex_scene :: Scene where
  "ex_scene = \<lparr>GetIntersect = (\<lambda>r. Some ex_ip), Le = (\<lambda>r. gray 7),
               GetLights = [ex_area, ex_point],
               bsdf_f = (\<lambda>ip wo wi. gray (1 / 2)),
               IsVisible = (\<lambda>vis. True),
               new_Visibility = \<lparr>ray = ex_ray\<rparr>\<rparr>"

definition ex_SatDot :: "Vector \<Rightarrow> Vector \<Rightarrow> real" where
  "ex_SatDot a b = max 0 (Dot a b)"

definition ex_integrator :: WhittedRT where
  "ex_integrator = \<lparr>max_recursive_depth = 6, scene = ex_scene\<rparr>"

definition ex_ps :: PixelSample where
  "ex_ps = \<lparr>light_sample = [\<lparr>ls_u = 0, ls_v = 0\<rparr>]\<rparr>"

text \<open>
  A shading graph environment in which the nodes of bxdf_node.cpp are BXDF-typed and
  every other node is CONSTANT-typed, and the base class accepts every node; property
  slots; a layered node with one populated slot pair (a Lambertian node weighted
  \<open>1/2\<close>) and one empty pair; a memory in which the measured terms of a \<open>MerlNode\<close>
  and a \<open>FourierBxdfNode\<close> live at the addresses 0 and 1.
\<close>

fun ex_getNodeType :: "MaterialNode \<Rightarrow> 32 word" where
  "ex_getNodeType (OtherNode i) = 1"
| "ex_getNodeType n = 2"

definition ex_h :: material_node_h where
  "ex_h = \<lparr>MAT_NODE_CONSTANT = 1, MAT_NODE_BXDF = 2,
           getNodeType = ex_getNodeType,
           GetNodeValue = (\<lambda>n bsdf. MaterialPropertyValue 0 0 0 0),
           MaterialNode_CheckValidation = (\<lambda>n. True)\<rparr>"

definition const_slot :: "real \<Rightarrow> MaterialNodeProperty" where
  "const_slot c = MaterialNodeProperty (MaterialPropertyValue c c c c) [] None"

definition node_slot :: "MaterialNode \<Rightarrow> MaterialNodeProperty" where
  "node_slot n = MaterialNodeProperty (MaterialPropertyValue 0 0 0 0) [] (Some n)"

definition file_slot :: "string \<Rightarrow> MaterialNodeProperty" where
  "file_slot name = MaterialNodeProperty (MaterialPropertyValue 0 0 0 0) name None"

definition ex_lambert :: MaterialNode where
  "ex_lambert = LambertNode (const_slot 1)"

definition ex_layered :: MaterialNode where
  "ex_layered = LayeredBxdfNode [node_slot ex_lambert, const_slot 0] [const_slot (1 / 2), const_slot 0]"

definition ex_bsdf :: Bsdf where
  "ex_bsdf = \<lparr>shading_point = ex_ip, m_bxdf = []\<rparr>"

definition ex_bsdf' :: Bsdf where
  "ex_bsdf' = \<lparr>shading_point = ex_ip\<lparr>intersect := Point 1 0 0\<rparr>, m_bxdf = []\<rparr>"

definition ex_arena :: Memory where
  "ex_arena = \<lparr>objects = (\<lambda>a. None), top = 0\<rparr>"

definition ex_merl_node :: MaterialNode where
  "ex_merl_node = MerlNode False (file_slot ''merl.binary'') 0"

definition ex_fourier_node :: MaterialNode where
  "ex_fourier_node = FourierBxdfNode False (file_slot ''fourier.bsdf'') 1"

definition ex_memory :: Memory where
  "ex_memory = \<lparr>objects = (\<lambda>a. if a = 0 then Some \<lparr>m_weight = gray 1, model = Merl []\<rparr>
                                else if a = 1 then Some \<lparr>m_weight = gray 1, model = FourierBxdf []\<rparr>
                                else None),
                top = 2\<rparr>"

section \<open>Properties of the Fresnel models\<close>

lemma abs_cos_flip: "(if - c > 0 then - c else - (- c)) = (if c > 0 then c else - (c::real))"
  by simp

text \<open>
  Claim C9: for the conductor and the dielectric Fresnel model, \<open>Evaluate\<close> is unchanged
  when either input cosine is negated.
\<close>

theorem Evaluate_sign_flip:
  "Evaluate (FresnelConductor e kk) (- cosi) coso = Evaluate (FresnelConductor e kk) cosi coso
   \<and> Evaluate (FresnelConductor e kk) cosi (- coso) = Evaluate (FresnelConductor e kk) cosi coso
   \<and> Evaluate (FresnelDielectric ei et) (- cosi) coso = Evaluate (FresnelDielectric ei et) cosi coso
   \<and> Evaluate (FresnelDielectric ei et) cosi (- coso) = Evaluate (FresnelDielectric ei et) cosi coso"
  by (simp add: FresnelConductor_Evaluate_def FresnelDielectric_Evaluate_def abs_cos_flip
      del: neg_0_less_iff_less)

text \<open>
  Claim C10: the conductor model reads only its first argument; two calls that differ in
  the exitant cosine alone return the same spectrum.
\<close>

theorem FresnelConductor_ignores_coso:
  "FresnelConductor_Evaluate e kk cosi coso1 = FresnelConductor_Evaluate e kk cosi coso2"
  by (simp add: FresnelConductor_Evaluate_def)

section \<open>Properties of the area light\<close>

lemma channel_cancel:
  "A \<noteq> 0 \<Longrightarrow> (A * g * (2 * pi) = 2 * pi * A * a) = (a = (g::real))"
  by auto

text \<open>
  Claim C4, as the code has it: the power of an area light with a shape of surface area
  \<open>A\<close> and intensity \<open>I\<close> is the spectrum whose three channels all hold
  \<open>A \<times> GetIntensity(I) \<times> 2\<pi>\<close>, whatever float \<open>GetIntensity\<close> reduces \<open>I\<close> to; and
  when \<open>A\<close> is not zero, that spectrum is \<open>2\<pi> \<times> A \<times> I\<close> exactly when every channel of
  \<open>I\<close> holds \<open>GetIntensity(I)\<close>.
\<close>

theorem Power_is_gray_intensity:
  assumes "shape light = Some sh"
  shows "Power GetIntensity light =
           Some (Spectrum (SurfaceArea sh * GetIntensity (intensity light) * (2 * pi))
                          (SurfaceArea sh * GetIntensity (intensity light) * (2 * pi))
                          (SurfaceArea sh * GetIntensity (intensity light) * (2 * pi)))
         \<and> (SurfaceArea sh \<noteq> 0 \<longrightarrow>
              (Power GetIntensity light
                 = Some (gray (2 * pi) * gray (SurfaceArea sh) * intensity light))
              = (intensity light = gray (GetIntensity (intensity light))))"
proof (intro conjI impI)
  show "Power GetIntensity light =
           Some (Spectrum (SurfaceArea sh * GetIntensity (intensity light) * (2 * pi))
                          (SurfaceArea sh * GetIntensity (intensity light) * (2 * pi))
                          (SurfaceArea sh * GetIntensity (intensity light) * (2 * pi)))"
    using assms by (simp add: Power_def gray_def TWO_PI_def)
next
  assume nz: "SurfaceArea sh \<noteq> 0"
  obtain a b c where I: "intensity light = Spectrum a b c"
    by (cases "intensity light") auto
  show "(Power GetIntensity light
           = Some (gray (2 * pi) * gray (SurfaceArea sh) * intensity light))
        = (intensity light = gray (GetIntensity (intensity light)))"
    using assms I
    by (simp add: Power_def gray_def times_Spectrum_def TWO_PI_def channel_cancel [OF nz])
qed

text \<open>
  Two lights of area 3, with the mean of the channels as the float. The red light has
  mean 1/3: its power is \<open>2\<pi>\<close> in every channel and is not \<open>2\<pi> \<times> A \<times> I\<close>. The gray
  light of intensity 1/2 has mean 1/2: its power is \<open>3\<pi>\<close> in every channel and is
  \<open>2\<pi> \<times> A \<times> I\<close>.
\<close>

theorem Power_is_gray_intensity_witness:
  "shape ex_area_light = Some ex_shape \<and> SurfaceArea ex_shape \<noteq> 0
   \<and> Power ex_mean ex_area_light = Some (Spectrum (2 * pi) (2 * pi) (2 * pi))
   \<and> Power ex_mean ex_area_light
        \<noteq> Some (gray (2 * pi) * gray (SurfaceArea ex_shape) * intensity ex_area_light)
   \<and> shape ex_white_light = Some ex_shape
   \<and> Power ex_mean ex_white_light = Some (Spectrum (3 * pi) (3 * pi) (3 * pi))
   \<and> Power ex_mean ex_white_light
        = Some (gray (2 * pi) * gray (SurfaceArea ex_shape) * intensity ex_white_light)"
proof -
  have s: "shape ex_area_light = Some ex_shape" "shape ex_white_light = Some ex_shape"
    and nz: "SurfaceArea ex_shape \<noteq> 0"
    by (simp_all add: ex_area_light_def ex_white_light_def ex_shape_def)
  have r: "intensity ex_area_light \<noteq> gray (ex_mean (intensity ex_area_light))"
    by (simp add: ex_area_light_def ex_mean_def gray_def)
  have w: "intensity ex_white_light = gray (ex_mean (intensity ex_white_light))"
    by (simp add: ex_white_light_def ex_mean_def gray_def)
  have 1: "Power ex_mean ex_area_light = Some (Spectrum (2 * pi) (2 * pi) (2 * pi))"
    using Power_is_gray_intensity [OF s(1), of ex_mean]
    by (simp add: ex_area_light_def ex_shape_def ex_mean_def)
  have 2: "Power ex_mean ex_area_light
        \<noteq> Some (gray (2 * pi) * gray (SurfaceArea ex_shape) * intensity ex_area_light)"
    using Power_is_gray_intensity [OF s(1), of ex_mean] nz r by blast
  have 3: "Power ex_mean ex_white_light = Some (Spectrum (3 * pi) (3 * pi) (3 * pi))"
    using Power_is_gray_intensity [OF s(2), of ex_mean]
    by (simp add: ex_white_light_def ex_shape_def ex_mean_def)
  have 4: "Power ex_mean ex_white_light
        = Some (gray (2 * pi) * gray (SurfaceArea ex_shape) * intensity ex_white_light)"
    using Power_is_gray_intensity [OF s(2), of ex_mean] nz w by blast
  from s nz 1 2 3 4 show ?thesis by simp
qed

text \<open>
  Claim C4 as stated fails: for the red light of area 3, no choice of the float
  \<open>GetIntensity\<close> returns makes \<open>Power()\<close> the spectrum \<open>2\<pi> \<times> A \<times> I\<close>, whose green
  and blue channels are zero while its red channel is not.
\<close>

theorem Power_not_spectral:
  "\<forall>GetIntensity.
     Power GetIntensity ex_area_light
       \<noteq> Some (gray (2 * pi) * gray (SurfaceArea ex_shape) * intensity ex_area_light)"
  by (auto simp add: Power_def gray_def times_Spectrum_def TWO_PI_def ex_area_light_def
      ex_shape_def)

text \<open>
  Claim C8: when the caller asks for the solid-angle density (\<open>pdfW\<close> is not null) and
  the shape samples with density exactly zero, the incident-direction \<open>sample_l\<close>
  returns zero radiance, and the cells behind \<open>distance\<close>, \<open>cosAtLight\<close> and
  \<open>emissionPdf\<close> and the visibility tester are as they were before the call.
\<close>

theorem sample_l_zero_pdf:
  assumes "shape light = Some sh"
    and "pdfW out = Some old"
    and "shape_sample_l sh s (intersect isect) = (ps, wi, n, 0)"
  shows "\<exists>out'. AreaLight_sample_l light isect (Some s) out = Some (0, out')
           \<and> distance out' = distance out
           \<and> cosAtLight out' = cosAtLight out
           \<and> emissionPdf out' = emissionPdf out
           \<and> visibility out' = visibility out"
  using assms by (simp add: AreaLight_sample_l_def store_def gray_def zero_Spectrum_def)

theorem sample_l_zero_pdf_witness:
  "\<exists>out'. AreaLight_sample_l ex_area_light ex_ip (Some \<lparr>ls_u = 0, ls_v = 0\<rparr>) ex_out = Some (0, out')
           \<and> distance out' = Some 7
           \<and> cosAtLight out' = Some 11
           \<and> emissionPdf out' = Some 9
           \<and> visibility out' = \<lparr>ray = ex_ray\<rparr>"
  using sample_l_zero_pdf [of ex_area_light ex_shape ex_out 5 "\<lparr>ls_u = 0, ls_v = 0\<rparr>" ex_ip
      "Point 0 0 4" "Vector 0 0 1" "Vector 0 0 (- 1)"]
  by (simp add: ex_area_light_def ex_shape_def ex_out_def)

section \<open>Properties of the integrator\<close>

text \<open>
  Claim C7: a ray whose depth is greater than the maximum recursive depth gets zero
  radiance, whatever the scene and the pixel sample are; the result is a spectrum, not
  an error.
\<close>

theorem Li_beyond_depth:
  "m_Depth r > max_recursive_depth wr \<Longrightarrow> Li SatDot wr r ps = 0"
  by (simp add: Li_def gray_def zero_Spectrum_def)

theorem Li_beyond_depth_witness:
  "m_Depth (ex_ray\<lparr>m_Depth := 7\<rparr>) > max_recursive_depth ex_integrator
   \<and> Li ex_SatDot ex_integrator (ex_ray\<lparr>m_Depth := 7\<rparr>) ex_ps = 0"
  using Li_beyond_depth [of ex_integrator "ex_ray\<lparr>m_Depth := 7\<rparr>" ex_SatDot ex_ps]
  by (simp add: ex_integrator_def ex_ray_def)

text \<open>
  The loop adds to \<open>t\<close> the terms of the included samples of the delta lights; lights
  that are not delta lights are passed over and leave the visibility tester alone.
\<close>

lemma Li_lights_sum:
  "fst (Li_lights SatDot sc r ps ip ls (t, vis)) =
     t + sum_list (map contribution (filter included
           (samples SatDot sc r ps ip (filter IsDelta ls) vis)))"
proof (induction ls arbitrary: t vis)
  case Nil
  then show ?case by simp
next
  case (Cons l ls)
  show ?case
  proof (cases "IsDelta l")
    case False
    then show ?thesis using Cons.IH [of t vis] by simp
  next
    case True
    obtain ld lightDir pdf vis1
      where s: "light_sample_l l ip (first_light_sample ps) vis = (ld, lightDir, pdf, vis1)"
      by (cases "light_sample_l l ip (first_light_sample ps) vis") auto
    show ?thesis
      using True s Cons.IH [of t vis1]
        Cons.IH [of "t + ld * bsdf_f sc ip (neg (m_Dir r)) lightDir
                          * gray (SatDot lightDir (normal ip)) / gray pdf" vis1]
      by (simp add: included_def contribution_def Let_def add.assoc)
  qed
qed

lemma samples_GetLights:
  "samples SatDot (sc\<lparr>GetLights := L\<rparr>) r ps ip ls vis = samples SatDot sc r ps ip ls vis"
  by (induction ls arbitrary: vis) (auto split: prod.splits)

text \<open>
  Claim C6: for a ray within the recursion limit that hits the scene, \<open>Li\<close> is the sum,
  over the samples of exactly the delta lights, of radiance \<open>\<times>\<close> reflectance \<open>\<times>\<close>
  clamped cosine \<open>/\<close> density, a sample counting only when its radiance is not black,
  its reflectance is not black and the visibility test passes; and taking the lights
  that are not delta lights out of the scene leaves the result as it is.
\<close>

theorem Li_direct_lighting:
  assumes "\<not> m_Depth r > max_recursive_depth wr"
    and "GetIntersect (scene wr) r = Some ip"
  shows "Li SatDot wr r ps =
           sum_list (map contribution (filter included
             (samples SatDot (scene wr) r ps ip (filter IsDelta (GetLights (scene wr)))
                (new_Visibility (scene wr)))))
         \<and> Li SatDot (wr\<lparr>scene := (scene wr)\<lparr>GetLights := filter IsDelta (GetLights (scene wr))\<rparr>\<rparr>) r ps
             = Li SatDot wr r ps"
  using assms
    Li_lights_sum [of SatDot "scene wr" r ps ip "GetLights (scene wr)" 0 "new_Visibility (scene wr)"]
    Li_lights_sum [of SatDot "(scene wr)\<lparr>GetLights := filter IsDelta (GetLights (scene wr))\<rparr>" r ps ip
       "filter IsDelta (GetLights (scene wr))" 0 "new_Visibility (scene wr)"]
  by (simp add: Li_def samples_GetLights)

text \<open>
  The example scene: the area light adds nothing, the point light adds
  \<open>2 \<times> 1/2 \<times> 1 / 1\<close> in every channel.
\<close>

theorem Li_direct_lighting_witness:
  "\<not> m_Depth ex_ray > max_recursive_depth ex_integrator
   \<and> GetIntersect (scene ex_integrator) ex_ray = Some ex_ip
   \<and> Li ex_SatDot ex_integrator ex_ray ex_ps = Spectrum 1 1 1"
  using Li_direct_lighting [where r = ex_ray and wr = ex_integrator and ip = ex_ip
      and SatDot = ex_SatDot and ps = ex_ps]
  by (simp add: ex_integrator_def ex_ray_def ex_scene_def ex_area_def ex_point_def ex_ps_def
      ex_SatDot_def ex_ip_def first_light_sample_def included_def contribution_def IsBlack_def
      gray_def times_Spectrum_def divide_Spectrum_def plus_Spectrum_def zero_Spectrum_def)

section \<open>Properties of the material nodes\<close>

lemma check_bxdfs_rejects:
  "p \<in> set ps \<Longrightarrow> node p = Some n \<Longrightarrow> getNodeType h n AND MAT_NODE_BXDF h = 0 \<Longrightarrow>
   \<not> check_bxdfs h ps"
  by (induction ps) (auto split: option.splits)

lemma check_weights_rejects:
  "p \<in> set ps \<Longrightarrow> node p = Some n \<Longrightarrow> getNodeType h n AND MAT_NODE_CONSTANT h = 0 \<Longrightarrow>
   \<not> check_weights h ps"
  by (induction ps) (auto split: option.splits)

lemma check_props_rejects:
  "(name, p) \<in> set ps \<Longrightarrow> node p = Some n \<Longrightarrow> getNodeType h n AND MAT_NODE_BXDF h \<noteq> 0 \<Longrightarrow>
   \<not> check_props h ps"
  by (induction ps) (auto split: option.splits)

lemma plain_BxdfNode_CheckValidation:
  "plain_BxdfNode this \<Longrightarrow> CheckValidation h this = BxdfNode_CheckValidation h this"
  by (cases this) simp_all

text \<open>
  Claim C5: \<open>CheckValidation\<close> returns false for a \<open>LayeredBxdfNode\<close> when some entry
  of \<open>bxdfs\<close> connects a node without the BXDF bit or some entry of \<open>weights\<close>
  connects a node without the CONSTANT bit, and for any other node of bxdf_node.cpp
  when one of its properties connects a node with the BXDF bit.
\<close>

theorem CheckValidation_rejects:
  "(p \<in> set bxdfs \<and> node p = Some n \<and> getNodeType h n AND MAT_NODE_BXDF h = 0
      \<longrightarrow> CheckValidation h (LayeredBxdfNode bxdfs weights) = False)
   \<and> (p \<in> set weights \<and> node p = Some n \<and> getNodeType h n AND MAT_NODE_CONSTANT h = 0
      \<longrightarrow> CheckValidation h (LayeredBxdfNode bxdfs weights) = False)
   \<and> (plain_BxdfNode this \<and> (name, p) \<in> set (m_props this) \<and> node p = Some n
       \<and> getNodeType h n AND MAT_NODE_BXDF h \<noteq> 0
      \<longrightarrow> CheckValidation h this = False)"
proof (intro conjI impI)
  assume "p \<in> set bxdfs \<and> node p = Some n \<and> getNodeType h n AND MAT_NODE_BXDF h = 0"
  then have "\<not> check_bxdfs h bxdfs"
    using check_bxdfs_rejects by blast
  then show "CheckValidation h (LayeredBxdfNode bxdfs weights) = False"
    by simp
next
  assume "p \<in> set weights \<and> node p = Some n \<and> getNodeType h n AND MAT_NODE_CONSTANT h = 0"
  then have "\<not> check_weights h weights"
    using check_weights_rejects by blast
  then show "CheckValidation h (LayeredBxdfNode bxdfs weights) = False"
    by simp
next
  assume a: "plain_BxdfNode this \<and> (name, p) \<in> set (m_props this) \<and> node p = Some n
       \<and> getNodeType h n AND MAT_NODE_BXDF h \<noteq> 0"
  then have "\<not> check_props h (m_props this)"
    using check_props_rejects by blast
  with a show "CheckValidation h this = False"
    by (simp add: plain_BxdfNode_CheckValidation BxdfNode_CheckValidation_def)
qed

text \<open>
  A constant-typed node in a \<open>Bxdf\<close> slot, a Lambertian node in a \<open>Weight\<close> slot, and
  a Lambertian node as the base colour of a Lambertian node; the base class accepts all
  three nodes.
\<close>

theorem CheckValidation_rejects_witness:
  "CheckValidation ex_h (LayeredBxdfNode [node_slot (OtherNode 0)] [const_slot 1]) = False
   \<and> CheckValidation ex_h (LayeredBxdfNode [node_slot ex_lambert] [node_slot ex_lambert]) = False
   \<and> CheckValidation ex_h (LambertNode (node_slot ex_lambert)) = False"
proof -
  have "node_slot (OtherNode 0) \<in> set [node_slot (OtherNode 0)]
        \<and> node (node_slot (OtherNode 0)) = Some (OtherNode 0)
        \<and> getNodeType ex_h (OtherNode 0) AND MAT_NODE_BXDF ex_h = 0"
    by (simp add: node_slot_def ex_h_def)
  then have 1: "CheckValidation ex_h (LayeredBxdfNode [node_slot (OtherNode 0)] [const_slot 1]) = False"
    using CheckValidation_rejects [where p = "node_slot (OtherNode 0)" and n = "OtherNode 0"
        and h = ex_h and bxdfs = "[node_slot (OtherNode 0)]" and weights = "[const_slot 1]"]
    by blast
  have "node_slot ex_lambert \<in> set [node_slot ex_lambert]
        \<and> node (node_slot ex_lambert) = Some ex_lambert
        \<and> getNodeType ex_h ex_lambert AND MAT_NODE_CONSTANT ex_h = 0"
    by (simp add: node_slot_def ex_h_def ex_lambert_def)
  then have 2: "CheckValidation ex_h (LayeredBxdfNode [node_slot ex_lambert] [node_slot ex_lambert]) = False"
    using CheckValidation_rejects [where p = "node_slot ex_lambert" and n = ex_lambert
        and h = ex_h and bxdfs = "[node_slot ex_lambert]" and weights = "[node_slot ex_lambert]"]
    by blast
  have "plain_BxdfNode (LambertNode (node_slot ex_lambert))
        \<and> (''BaseColor'', node_slot ex_lambert) \<in> set (m_props (LambertNode (node_slot ex_lambert)))
        \<and> node (node_slot ex_lambert) = Some ex_lambert
        \<and> getNodeType ex_h ex_lambert AND MAT_NODE_BXDF ex_h \<noteq> 0"
    by (simp add: node_slot_def ex_h_def ex_lambert_def)
  then have 3: "CheckValidation ex_h (LambertNode (node_slot ex_lambert)) = False"
    using CheckValidation_rejects [where p = "node_slot ex_lambert" and n = ex_lambert
        and h = ex_h and this = "LambertNode (node_slot ex_lambert)" and name = "''BaseColor''"]
    by blast
  from 1 2 3 show ?thesis by simp
qed

text \<open>The layered example itself is wired as the rules ask and passes the validation.\<close>

lemma ex_layered_valid: "CheckValidation ex_h ex_layered"
  by (simp add: ex_layered_def ex_h_def node_slot_def const_slot_def ex_lambert_def)

text \<open>
  \<open>LayeredBxdfNode::UpdateBSDF\<close> never reads the weight it is given: two calls that
  differ in the incoming weight alone end in the same state.
\<close>

lemma Layered_ignores_weight:
  "UpdateBSDF h (LayeredBxdfNode bxdfs weights) W st = UpdateBSDF h (LayeredBxdfNode bxdfs weights) W' st"
  by simp

text \<open>
  A populated slot pair whose sub-node is a Lambertian node appends one term, and its
  weight is the value \<open>w\<close> the weight slot resolves to.
\<close>

lemma Layered_Lambert_slot:
  "UpdateBSDF h (LayeredBxdfNode [node_slot (LambertNode c)] [wslot]) W (bsdf, mem) =
     (bsdf\<lparr>m_bxdf := m_bxdf bsdf @ [top mem]\<rparr>,
      mem\<lparr>objects := (objects mem)(top mem \<mapsto>
             \<lparr>m_weight = ToSpectrum (GetPropertyValue h wslot bsdf),
              model = Lambert (ToSpectrum (GetPropertyValue h c bsdf))\<rparr>),
          top := top mem + 1\<rparr>)"
  by (simp add: node_slot_def add_new_def SORT_MALLOC_def AddBxdf_def)

text \<open>
  Claim C1 at a concrete input: the layered example, one Lambertian sub-node with weight
  slot \<open>w = 1/2\<close> and one empty slot pair, updated with top-level weight \<open>W = 2\<close> on an
  empty Bsdf. Exactly one term is appended, at address 0; its weight is \<open>w = 1/2\<close>,
  while \<open>W \<times> w\<close> is 1.
\<close>

theorem Layered_drops_weight:
  "m_bxdf (fst (UpdateBSDF ex_h ex_layered (gray 2) (ex_bsdf, ex_arena))) = [0]
   \<and> map_option m_weight (objects (snd (UpdateBSDF ex_h ex_layered (gray 2) (ex_bsdf, ex_arena))) 0)
       = Some (Spectrum (1 / 2) (1 / 2) (1 / 2))
   \<and> gray 2 * ToSpectrum (GetPropertyValue ex_h (const_slot (1 / 2)) ex_bsdf) = Spectrum 1 1 1"
  by (simp add: ex_layered_def ex_h_def node_slot_def const_slot_def ex_lambert_def ex_bsdf_def
      ex_arena_def add_new_def SORT_MALLOC_def AddBxdf_def GetPropertyValue_def ToSpectrum_def
      gray_def times_Spectrum_def)

text \<open>
  An analytic node adds a term at the next free address of the arena, with the weight it
  is given, and leaves every object that was in memory as it was.
\<close>

lemma add_new_fresh:
  "m_bxdf (fst (add_new obj (bsdf, mem))) = m_bxdf bsdf @ [top mem]
   \<and> top (snd (add_new obj (bsdf, mem))) = top mem + 1
   \<and> objects (snd (add_new obj (bsdf, mem))) (top mem) = Some obj
   \<and> (a \<noteq> top mem \<longrightarrow> objects (snd (add_new obj (bsdf, mem))) a = objects mem a)"
  by (simp add: add_new_def SORT_MALLOC_def AddBxdf_def)

lemma analytic_node_fresh_term:
  assumes "analytic n"
  shows "m_bxdf (fst (UpdateBSDF h n weight (bsdf, mem))) = m_bxdf bsdf @ [top mem]
   \<and> top (snd (UpdateBSDF h n weight (bsdf, mem))) = top mem + 1
   \<and> map_option m_weight (objects (snd (UpdateBSDF h n weight (bsdf, mem))) (top mem))
        = Some weight
   \<and> (a \<noteq> top mem \<longrightarrow> objects (snd (UpdateBSDF h n weight (bsdf, mem))) a = objects mem a)"
  using assms by (cases n) (simp_all add: add_new_fresh Let_def)

text \<open>
  Claim C2 at a concrete input: the Bsdfs of two shading points are built from the same
  \<open>MerlNode\<close>, the first with weight \<open>1/4\<close>, the second with weight \<open>3/4\<close>. Both hold
  the address 0 of the term the node owns; the first update changes the weight of that
  term from 1 to \<open>1/4\<close>, and after the second update the term of the first Bsdf weighs
  \<open>3/4\<close>. The same holds for the \<open>FourierBxdfNode\<close> and its term at address 1.
\<close>

theorem measured_term_shared:
  "m_bxdf (fst (UpdateBSDF ex_h ex_merl_node (gray (1 / 4)) (ex_bsdf, ex_memory))) = [0]
   \<and> map_option m_weight (objects ex_memory 0) = Some (gray 1)
   \<and> map_option m_weight
        (objects (snd (UpdateBSDF ex_h ex_merl_node (gray (1 / 4)) (ex_bsdf, ex_memory))) 0)
       = Some (gray (1 / 4))
   \<and> m_bxdf (fst (UpdateBSDF ex_h ex_merl_node (gray (3 / 4))
         (ex_bsdf', snd (UpdateBSDF ex_h ex_merl_node (gray (1 / 4)) (ex_bsdf, ex_memory))))) = [0]
   \<and> map_option m_weight
        (objects (snd (UpdateBSDF ex_h ex_merl_node (gray (3 / 4))
           (ex_bsdf', snd (UpdateBSDF ex_h ex_merl_node (gray (1 / 4)) (ex_bsdf, ex_memory))))) 0)
       = Some (gray (3 / 4))
   \<and> m_bxdf (fst (UpdateBSDF ex_h ex_fourier_node (gray (1 / 4)) (ex_bsdf, ex_memory))) = [1]
   \<and> map_option m_weight
        (objects (snd (UpdateBSDF ex_h ex_fourier_node (gray (1 / 4)) (ex_bsdf, ex_memory))) 1)
       = Some (gray (1 / 4))"
  by (simp add: ex_merl_node_def ex_fourier_node_def ex_bsdf_def ex_bsdf'_def ex_memory_def
      AddBxdf_def set_m_weight_def)

text \<open>
  Claim C3 at a concrete input: a \<open>MerlNode\<close> that is not yet processed, with a
  non-empty file name. The first \<open>PostProcess\<close> loads the file and leaves the node,
  flag included, as it was; the second call loads the file again. The same holds for the
  \<open>FourierBxdfNode\<close>.
\<close>

theorem PostProcess_loads_again:
  "fst (MerlNode_PostProcess ex_merl_node ex_memory) = ex_merl_node
   \<and> map_option model (objects (snd (MerlNode_PostProcess ex_merl_node ex_memory)) 0)
       = Some (Merl [''merl.binary''])
   \<and> map_option model
        (objects (snd (MerlNode_PostProcess ex_merl_node
           (snd (MerlNode_PostProcess ex_merl_node ex_memory)))) 0)
       = Some (Merl [''merl.binary'', ''merl.binary''])
   \<and> fst (FourierBxdfNode_PostProcess ex_fourier_node ex_memory) = ex_fourier_node
   \<and> map_option model
        (objects (snd (FourierBxdfNode_PostProcess ex_fourier_node
           (snd (FourierBxdfNode_PostProcess ex_fourier_node ex_memory)))) 1)
       = Some (FourierBxdf [''fourier.bsdf'', ''fourier.bsdf''])"
  by (simp add: ex_merl_node_def ex_fourier_node_def ex_memory_def file_slot_def LoadData_def)

text \<open>
  The first call loads the file exactly when the file name is not empty. Where the guard
  does hold, for a node whose flag is set, the node and the memory are left alone.
\<close>

lemma MerlNode_PostProcess_first:
  "MerlNode_PostProcess (MerlNode False merlfile merl) mem =
     (MerlNode False merlfile merl,
      if str merlfile \<noteq> [] then LoadData merl (str merlfile) mem else mem)"
  by simp

lemma FourierBxdfNode_PostProcess_first:
  "FourierBxdfNode_PostProcess (FourierBxdfNode False fourierBxdfFile fourierBxdf) mem =
     (FourierBxdfNode False fourierBxdfFile fourierBxdf,
      if str fourierBxdfFile \<noteq> [] then LoadData fourierBxdf (str fourierBxdfFile) mem else mem)"
  by simp

lemma MerlNode_PostProcess_guarded:
  "pp \<or> str merlfile = [] \<Longrightarrow>
   MerlNode_PostProcess (MerlNode pp merlfile merl) mem = (MerlNode pp merlfile merl, mem)"
  by auto

end
